theory Spec2Isabelle
  imports Complex_Main
begin

section \<open>ACME certificate revocation (builtin/logical/pki/path\_acme\_revoke.go)\<close>

text \<open>
  A shallow embedding of the three functions of \<^verbatim>\<open>path_acme_revoke.go\<close>:
  \<^verbatim>\<open>acmeRevocationHandler\<close>, \<^verbatim>\<open>acmeRevocationByPoP\<close> and
  \<^verbatim>\<open>acmeRevocationByAccount\<close>. Every \<^verbatim>\<open>return nil, fmt.Errorf(...)\<close> of the
  source is a branch returning \<open>Failed\<close>; the backend (storage, the revocation lock and a log
  of the calls made to collaborators) is passed explicitly and returned updated.
\<close>

subsection \<open>Errors\<close>

text \<open>
  The sentinel errors of the ACME error table that the file wraps with \<^verbatim>\<open>%w\<close>.
\<close>

datatype acme_sentinel =
    ErrMalformed
  | ErrServerInternal
  | ErrBadRevocationReason
  | ErrAlreadyRevoked
  | ErrUnauthorized

text \<open>
  A Go error value: a sentinel, an error of a collaborator that wraps nothing
  (\<open>Opaque\<close>, for instance a storage failure), or the result of
  \<^verbatim>\<open>fmt.Errorf(format, ..., e)\<close> whose \<^verbatim>\<open>%w\<close> verb wraps \<open>e\<close>. Arguments formatted
  with \<^verbatim>\<open>%v\<close> or \<^verbatim>\<open>%T\<close> only contribute text and are not kept; the format string is.
\<close>

datatype go_error =
    Sentinel acme_sentinel
  | Opaque string
  | Errorf string go_error

text \<open>\<^verbatim>\<open>errors.Is(err, target)\<close> for a sentinel target: walk the \<^verbatim>\<open>%w\<close> chain.\<close>

fun errors_Is :: "go_error \<Rightarrow> acme_sentinel \<Rightarrow> bool" where
  "errors_Is (Sentinel s) t = (s = t)"
| "errors_Is (Opaque m) t = False"
| "errors_Is (Errorf fmt e) t = errors_Is e t"

subsection \<open>Data\<close>

type_synonym bytes = "nat list"

text \<open>\<^verbatim>\<open>time.Time\<close> as nanoseconds on one clock; \<^verbatim>\<open>t.Before(u)\<close> is \<open>t < u\<close>.\<close>

type_synonym time = int

definition Before :: "time \<Rightarrow> time \<Rightarrow> bool" where
  "Before t u = (t < u)"

text \<open>
  The values of \<^verbatim>\<open>map[string]interface{}\<close> after JSON decoding: a JSON number is a
  \<^verbatim>\<open>float64\<close>, here the rational it denotes (JSON has neither NaN nor infinities).
\<close>

datatype json_value =
    JString string
  | JNumber rat
  | JBool bool
  | JNull
  | JArray "json_value list"
  | JObject "(string \<times> json_value) list"

text \<open>
  The conversion \<^verbatim>\<open>int(reason)\<close> of a \<^verbatim>\<open>float64\<close> to a 64-bit \<^verbatim>\<open>int\<close>: the fraction is
  discarded (truncation towards zero); when the truncated value does not fit, Go leaves
  the result to the implementation, here the function \<open>impl\<close>.
\<close>

definition trunc_towards_zero :: "rat \<Rightarrow> int" where
  "trunc_towards_zero f = (if 0 \<le> f then \<lfloor>f\<rfloor> else \<lceil>f\<rceil>)"

definition float64_to_int :: "(rat \<Rightarrow> int) \<Rightarrow> rat \<Rightarrow> int" where
  "float64_to_int impl f =
     (let t = trunc_towards_zero f
      in if - (2 ^ 63) \<le> t \<and> t < 2 ^ 63 then t else impl f)"

text \<open>The fields of \<^verbatim>\<open>x509.Certificate\<close> that the handler and its collaborators read.\<close>

record certificate =
  Raw :: bytes
  NotAfter :: time
  SerialNumber :: int
  PublicKey :: bytes

text \<open>\<^verbatim>\<open>logical.StorageEntry\<close>, as returned by \<^verbatim>\<open>fetchCertBySerial\<close>.\<close>

record storageEntry =
  EntryKey :: string
  Value :: bytes

text \<open>
  \<^verbatim>\<open>userCtx.Key.Key\<close> is an \<^verbatim>\<open>interface{}\<close>; the type assertion
  \<^verbatim>\<open>.(crypto.Signer)\<close> succeeds on the first constructor only. A signer is given by
  what its \<^verbatim>\<open>Public()\<close> returns.
\<close>

datatype key_material =
    SignerKey bytes
  | NonSignerKey string

record jwsCtx =
  Existing :: bool
  Kid :: string
  Key :: key_material

text \<open>
  Modelled from the spec: the account record and the constant \<^verbatim>\<open>AccountStatusValid\<close> are
  declared outside this file; the spec gives the status the value "valid" among
  valid, deactivated and revoked.
\<close>

record acmeAccount =
  Status :: string

definition AccountStatusValid :: string where
  "AccountStatusValid = ''valid''"

datatype response = Response "string list"

text \<open>
  How a call of the handler ends: it returns an error, it returns a response, or it never
  returns because \<^verbatim>\<open>revokeStorageLock.Lock()\<close> waits for a lock that nobody in this
  sequential model will release.
\<close>

datatype outcome =
    Failed go_error
  | Succeeded response
  | BlockedOnLock

definition returned :: "go_error + response \<Rightarrow> outcome" where
  "returned res = (case res of Inl err \<Rightarrow> Failed err | Inr resp \<Rightarrow> Succeeded resp)"

subsection \<open>Collaborators and the backend\<close>

text \<open>
  The functions the file calls and does not define are parameters. A Go result
  \<^verbatim>\<open>(x, err)\<close> is a sum with \<open>Inl\<close> for \<^verbatim>\<open>err != nil\<close>; the file never reads \<open>x\<close> in
  that case. A pointer result that may be nil without an error is an option;
  \<^verbatim>\<open>LoadAccount\<close> returns an account or an error, as its interface in the specification
  says (the file reads \<^verbatim>\<open>account.Status\<close> without a nil check).
  \<open>'s\<close> is the storage behind \<^verbatim>\<open>acmeCtx.sc\<close>, \<open>'c\<close> the type \<^verbatim>\<open>crlConfig\<close>.
  Lookups read the storage; only \<^verbatim>\<open>revokeCert\<close> returns a new one.
\<close>

record ('s, 'c) env =
  Now :: time
  DecodeString :: "string \<Rightarrow> string + bytes"
  ParseCertificate :: "bytes \<Rightarrow> string + certificate"
  int_out_of_range :: "rat \<Rightarrow> int"
  getConfigWithUpdate :: "'s \<Rightarrow> go_error + 'c"
  serialFromCert :: "certificate \<Rightarrow> string"
  fetchCertBySerial :: "'s \<Rightarrow> string \<Rightarrow> string \<Rightarrow> go_error + storageEntry option"
  validatePrivateKeyMatchesCert :: "bytes \<Rightarrow> certificate \<Rightarrow> go_error option"
  LoadAccount :: "'s \<Rightarrow> string \<Rightarrow> go_error + acmeAccount"
  GetIssuedCert :: "'s \<Rightarrow> string \<Rightarrow> string \<Rightarrow> go_error + bytes option"
  revokeCert :: "'s \<Rightarrow> 'c \<Rightarrow> certificate \<Rightarrow> (go_error + response) \<times> 's"

text \<open>
  What the handler does to the world, in order. A call of \<^verbatim>\<open>revokeCert\<close> is recorded
  with the certificate's bytes and with whether \<^verbatim>\<open>revokeStorageLock\<close> was held when the
  call was made.
\<close>

datatype event =
    CallGetConfigWithUpdate
  | CallFetchCertBySerial string string
  | CallLoadAccount string
  | CallGetIssuedCert string string
  | LockAcquired
  | CallRevokeCert bytes bool
  | LockReleased

record 's backend =
  storage :: 's
  revokeStorageLock :: bool
  calls :: "event list"

definition record_call :: "event \<Rightarrow> 's backend \<Rightarrow> 's backend" where
  "record_call e b = b\<lparr>calls := calls b @ [e]\<rparr>"

text \<open>
  \<^verbatim>\<open>b.revokeStorageLock.Lock()\<close> takes the lock when it is free. When the lock is held
  the call waits for the holder to release it; no other thread runs in this model, so the
  call never returns: \<open>None\<close>.
\<close>

definition Lock :: "'s backend \<Rightarrow> 's backend option" where
  "Lock b =
     (if revokeStorageLock b then None
      else Some (record_call LockAcquired (b\<lparr>revokeStorageLock := True\<rparr>)))"

definition Unlock :: "'s backend \<Rightarrow> 's backend" where
  "Unlock b = record_call LockReleased (b\<lparr>revokeStorageLock := False\<rparr>)"

definition call_revokeCert ::
  "('s, 'c) env \<Rightarrow> 'c \<Rightarrow> certificate \<Rightarrow> 's backend \<Rightarrow> (go_error + response) \<times> 's backend" where
  "call_revokeCert env config cert b =
     (let (res, st) = revokeCert env (storage b) config cert
      in (res, record_call (CallRevokeCert (Raw cert) (revokeStorageLock b)) (b\<lparr>storage := st\<rparr>)))"

subsection \<open>The two authorization paths\<close>

definition acmeRevocationByPoP ::
  "('s, 'c) env \<Rightarrow> jwsCtx \<Rightarrow> certificate \<Rightarrow> 'c \<Rightarrow> 's backend \<Rightarrow> outcome \<times> 's backend" where
  "acmeRevocationByPoP env userCtx cert config b =
     (case Key userCtx of
        NonSignerKey ty \<Rightarrow>
          (Failed (Errorf ''unable to revoke certificate: unable to parse JWS key of type (%T): %w''
                     (Sentinel ErrMalformed)), b)
      | SignerKey signer \<Rightarrow>
          (case validatePrivateKeyMatchesCert env signer cert of
             Some err \<Rightarrow>
               (Failed (Errorf ''unable to revoke certificate: unable to verify proof of possession: %v: %w''
                          (Sentinel ErrMalformed)), b)
           | None \<Rightarrow>
               (case Lock b of
                  None \<Rightarrow> (BlockedOnLock, b)
                | Some b1 \<Rightarrow>
                    (let (res, b2) = call_revokeCert env config cert b1
                     in (returned res, Unlock b2)))))"

definition acmeRevocationByAccount ::
  "('s, 'c) env \<Rightarrow> jwsCtx \<Rightarrow> certificate \<Rightarrow> 'c \<Rightarrow> 's backend \<Rightarrow> outcome \<times> 's backend" where
  "acmeRevocationByAccount env userCtx cert config b =
     (let b1 = record_call (CallLoadAccount (Kid userCtx)) b
      in case LoadAccount env (storage b) (Kid userCtx) of
           Inl err \<Rightarrow> (Failed (Errorf ''failed to lookup account: %w'' err), b1)
         | Inr account \<Rightarrow>
             if Status account \<noteq> AccountStatusValid
             then (Failed (Errorf ''account isn't presently valid: %w'' (Sentinel ErrUnauthorized)), b1)
             else
               (let serial = serialFromCert env cert;
                    b2 = record_call (CallGetIssuedCert (Kid userCtx) serial) b1
                in case GetIssuedCert env (storage b) (Kid userCtx) serial of
                     Inl err \<Rightarrow>
                       (Failed (Errorf ''unable to revoke certificate: %v: %w'' (Sentinel ErrMalformed)), b2)
                   | Inr None \<Rightarrow>
                       (Failed (Errorf ''unable to revoke certificate: %v: %w'' (Sentinel ErrMalformed)), b2)
                   | Inr (Some acmeEntry) \<Rightarrow>
                       (case Lock b2 of
                          None \<Rightarrow> (BlockedOnLock, b2)
                        | Some b3 \<Rightarrow>
                            (let (res, b4) = call_revokeCert env config cert b3
                             in (returned res, Unlock b4)))))"

subsection \<open>The handler\<close>

definition acmeRevocationHandler ::
  "('s, 'c) env \<Rightarrow> jwsCtx \<Rightarrow> (string \<rightharpoonup> json_value) \<Rightarrow> 's backend
     \<Rightarrow> outcome \<times> 's backend" where
  "acmeRevocationHandler env userCtx data b =
     (case data ''certificate'' of
        None \<Rightarrow>
          (Failed (Errorf ''bad request was lacking required field 'certificate': %w''
                  (Sentinel ErrMalformed)), b)
      | Some rawCertificate \<Rightarrow>
     (case rawCertificate of
        JString certBase64 \<Rightarrow>
     (case DecodeString env certBase64 of
        Inl err \<Rightarrow>
          (Failed (Errorf ''failed to base64 decode certificate: %v: %w'' (Sentinel ErrMalformed)), b)
      | Inr certBytes \<Rightarrow>
     (case ParseCertificate env certBytes of
        Inl err \<Rightarrow>
          (Failed (Errorf ''failed to parse certificate: %v: %w'' (Sentinel ErrMalformed)), b)
      | Inr cert \<Rightarrow>
     (case (case data ''reason'' of
              None \<Rightarrow> None
            | Some (JNumber reason) \<Rightarrow>
                if float64_to_int (int_out_of_range env) reason \<noteq> 0
                then Some (Errorf ''Vault does not support revocation reasons (got %v; expected omitted or 0/unspecified): %w''
                             (Sentinel ErrBadRevocationReason))
                else None
            | Some rawReason \<Rightarrow>
                Some (Errorf ''invalid type (%T; expected float64) for field 'reason': %w''
                        (Sentinel ErrMalformed))) of
        Some err \<Rightarrow> (Failed err, b)
      | None \<Rightarrow>
          if Before (NotAfter cert) (Now env)
          then (Failed (Errorf ''refusing to revoke expired certificate: %w'' (Sentinel ErrMalformed)), b)
          else
     (let b1 = record_call CallGetConfigWithUpdate b
      in case getConfigWithUpdate env (storage b) of
        Inl err \<Rightarrow>
          (Failed (Errorf ''unable to revoke certificate: failed reading revocation config: %v: %w''
                  (Sentinel ErrServerInternal)), b1)
      | Inr config \<Rightarrow>
     (let serial = serialFromCert env cert;
          b2 = record_call (CallFetchCertBySerial ''certs/'' serial) b1
      in case fetchCertBySerial env (storage b) ''certs/'' serial of
        Inl err \<Rightarrow>
          (Failed (Errorf ''unable to revoke certificate: err reading global cert entry: %v: %w''
                  (Sentinel ErrServerInternal)), b2)
      | Inr None \<Rightarrow>
          (Failed (Errorf ''unable to revoke certificate: no global cert entry found: %w''
                  (Sentinel ErrServerInternal)), b2)
      | Inr (Some certEntry) \<Rightarrow>
          if Value certEntry \<noteq> Raw cert
          then (Failed (Errorf ''unable to revoke certificate: supplied certificate does not match CA's stored value: %w''
                       (Sentinel ErrMalformed)), b2)
          else
     (let b3 = record_call (CallFetchCertBySerial ''revoked/'' serial) b2
      in case fetchCertBySerial env (storage b) ''revoked/'' serial of
        Inl err \<Rightarrow>
          (Failed (Errorf ''unable to revoke certificate: err reading revocation entry: %v: %w''
                  (Sentinel ErrServerInternal)), b3)
      | Inr (Some revEntry) \<Rightarrow>
          (Failed (Errorf ''unable to revoke certificate: %w'' (Sentinel ErrAlreadyRevoked)), b3)
      | Inr None \<Rightarrow>
          if \<not> Existing userCtx
          then acmeRevocationByPoP env userCtx cert config b3
          else acmeRevocationByAccount env userCtx cert config b3))))))
      | _ \<Rightarrow>
          (Failed (Errorf ''invalid type (%T; expected string) for field 'certificate': %w''
                  (Sentinel ErrMalformed)), b)))"

text \<open>
  The handler from the configuration fetch on (lines 83 to 133), for the certificate the
  request presented: a name for the second half of the body above, so that lemmas about the
  stored records and the dispatch need not repeat the checks on the request fields.
  Lemma \<open>handler_validated\<close> shows that the handler continues with it.
\<close>

definition handler_from_config_fetch ::
  "('s, 'c) env \<Rightarrow> jwsCtx \<Rightarrow> certificate \<Rightarrow> 's backend
     \<Rightarrow> outcome \<times> 's backend" where
  "handler_from_config_fetch env userCtx cert b =
     (let b1 = record_call CallGetConfigWithUpdate b
      in case getConfigWithUpdate env (storage b) of
        Inl err \<Rightarrow>
          (Failed (Errorf ''unable to revoke certificate: failed reading revocation config: %v: %w''
                  (Sentinel ErrServerInternal)), b1)
      | Inr config \<Rightarrow>
     (let serial = serialFromCert env cert;
          b2 = record_call (CallFetchCertBySerial ''certs/'' serial) b1
      in case fetchCertBySerial env (storage b) ''certs/'' serial of
        Inl err \<Rightarrow>
          (Failed (Errorf ''unable to revoke certificate: err reading global cert entry: %v: %w''
                  (Sentinel ErrServerInternal)), b2)
      | Inr None \<Rightarrow>
          (Failed (Errorf ''unable to revoke certificate: no global cert entry found: %w''
                  (Sentinel ErrServerInternal)), b2)
      | Inr (Some certEntry) \<Rightarrow>
          if Value certEntry \<noteq> Raw cert
          then (Failed (Errorf ''unable to revoke certificate: supplied certificate does not match CA's stored value: %w''
                       (Sentinel ErrMalformed)), b2)
          else
     (let b3 = record_call (CallFetchCertBySerial ''revoked/'' serial) b2
      in case fetchCertBySerial env (storage b) ''revoked/'' serial of
        Inl err \<Rightarrow>
          (Failed (Errorf ''unable to revoke certificate: err reading revocation entry: %v: %w''
                  (Sentinel ErrServerInternal)), b3)
      | Inr (Some revEntry) \<Rightarrow>
          (Failed (Errorf ''unable to revoke certificate: %w'' (Sentinel ErrAlreadyRevoked)), b3)
      | Inr None \<Rightarrow>
          if \<not> Existing userCtx
          then acmeRevocationByPoP env userCtx cert config b3
          else acmeRevocationByAccount env userCtx cert config b3)))"

subsection \<open>The checks in the words of the specification\<close>

text \<open>
  Section 4.1: the \<^verbatim>\<open>certificate\<close> field is present, is a string, decodes as base64url
  and parses as a certificate.
\<close>

definition presented_certificate ::
  "('s, 'c) env \<Rightarrow> (string \<rightharpoonup> json_value) \<Rightarrow> certificate option" where
  "presented_certificate env data =
     (case data ''certificate'' of
        Some (JString certBase64) \<Rightarrow>
          (case DecodeString env certBase64 of
             Inr certBytes \<Rightarrow>
               (case ParseCertificate env certBytes of Inr cert \<Rightarrow> Some cert | Inl e \<Rightarrow> None)
           | Inl e \<Rightarrow> None)
      | _ \<Rightarrow> None)"

text \<open>Section 4.1: the \<^verbatim>\<open>reason\<close> field is absent, or a number that converts to 0.\<close>

definition reason_accepted :: "('s, 'c) env \<Rightarrow> (string \<rightharpoonup> json_value) \<Rightarrow> bool" where
  "reason_accepted env data =
     (case data ''reason'' of
        None \<Rightarrow> True
      | Some (JNumber reason) \<Rightarrow> float64_to_int (int_out_of_range env) reason = 0
      | Some v \<Rightarrow> False)"

text \<open>Section 4.1 as a whole: the request yields \<open>cert\<close>, which has not expired.\<close>

definition passes_input_validation ::
  "('s, 'c) env \<Rightarrow> (string \<rightharpoonup> json_value) \<Rightarrow> certificate \<Rightarrow> bool" where
  "passes_input_validation env data cert =
     (presented_certificate env data = Some cert \<and> reason_accepted env data
        \<and> \<not> Before (NotAfter cert) (Now env))"

text \<open>
  Section 4.2 (with the configuration fetch that precedes it): the configuration is
  read, the stored certificate exists and equals the presented one, and no revocation
  record exists.
\<close>

definition stored_copy_matches :: "('s, 'c) env \<Rightarrow> 's \<Rightarrow> certificate \<Rightarrow> bool" where
  "stored_copy_matches env st cert =
     (case fetchCertBySerial env st ''certs/'' (serialFromCert env cert) of
        Inr (Some certEntry) \<Rightarrow> Value certEntry = Raw cert
      | _ \<Rightarrow> False)"

definition passes_record_store ::
  "('s, 'c) env \<Rightarrow> 's \<Rightarrow> certificate \<Rightarrow> 'c \<Rightarrow> bool" where
  "passes_record_store env st cert config =
     (getConfigWithUpdate env st = Inr config \<and> stored_copy_matches env st cert
        \<and> fetchCertBySerial env st ''revoked/'' (serialFromCert env cert) = Inr None)"

text \<open>Section 4.3: the strategy selected by \<open>Existing\<close> admits the caller.\<close>

definition pop_authorized :: "('s, 'c) env \<Rightarrow> jwsCtx \<Rightarrow> certificate \<Rightarrow> bool" where
  "pop_authorized env userCtx cert =
     (case Key userCtx of
        SignerKey signer \<Rightarrow> validatePrivateKeyMatchesCert env signer cert = None
      | NonSignerKey ty \<Rightarrow> False)"

definition account_authorized :: "('s, 'c) env \<Rightarrow> jwsCtx \<Rightarrow> 's \<Rightarrow> certificate \<Rightarrow> bool" where
  "account_authorized env userCtx st cert =
     (case LoadAccount env st (Kid userCtx) of
        Inr account \<Rightarrow>
          Status account = AccountStatusValid
          \<and> (case GetIssuedCert env st (Kid userCtx) (serialFromCert env cert) of
                Inr (Some acmeEntry) \<Rightarrow> True
              | _ \<Rightarrow> False)
      | Inl e \<Rightarrow> False)"

definition passes_authorization ::
  "('s, 'c) env \<Rightarrow> jwsCtx \<Rightarrow> 's \<Rightarrow> certificate \<Rightarrow> bool" where
  "passes_authorization env userCtx st cert =
     (if Existing userCtx then account_authorized env userCtx st cert
      else pop_authorized env userCtx cert)"

text \<open>All of 4.1 to 4.3, for a request as a whole.\<close>

definition all_checks_pass ::
  "('s, 'c) env \<Rightarrow> jwsCtx \<Rightarrow> (string \<rightharpoonup> json_value) \<Rightarrow> 's \<Rightarrow> bool" where
  "all_checks_pass env userCtx data st =
     (case presented_certificate env data of
        None \<Rightarrow> False
      | Some cert \<Rightarrow>
          reason_accepted env data \<and> \<not> Before (NotAfter cert) (Now env)
          \<and> (case getConfigWithUpdate env st of
                Inl e \<Rightarrow> False
              | Inr config \<Rightarrow> passes_record_store env st cert config)
          \<and> passes_authorization env userCtx st cert)"

text \<open>The calls a run added to the log, and the kinds of call that touch the lock or write.\<close>

definition new_calls :: "'s backend \<Rightarrow> 's backend \<Rightarrow> event list" where
  "new_calls b b' = drop (length (calls b)) (calls b')"

fun is_lookup :: "event \<Rightarrow> bool" where
  "is_lookup LockAcquired = False"
| "is_lookup (CallRevokeCert raw held) = False"
| "is_lookup LockReleased = False"
| "is_lookup e = True"

fun is_authorization_call :: "event \<Rightarrow> bool" where
  "is_authorization_call (CallLoadAccount kid) = True"
| "is_authorization_call (CallGetIssuedCert kid serial) = True"
| "is_authorization_call e = False"

text \<open>
  What a run did from the first call that is not a lookup: empty when the lock was never
  taken, and \<open>locked_write cert\<close> when the run took the lock, called
  \<^verbatim>\<open>revokeCert\<close> on \<open>cert\<close> with the lock held and released the lock, in that order
  and after lookups only.
\<close>

definition write_calls :: "'s backend \<Rightarrow> 's backend \<Rightarrow> event list" where
  "write_calls b b' = dropWhile is_lookup (new_calls b b')"

definition locked_write :: "certificate \<Rightarrow> event list" where
  "locked_write cert = [LockAcquired, CallRevokeCert (Raw cert) True, LockReleased]"

text \<open>
  The two ways a run that is let through ends. With the lock free it performs the locked
  write: \<^verbatim>\<open>revokeCert\<close> is called on the storage as it was, once, between taking and
  releasing the lock; the run returns what \<^verbatim>\<open>revokeCert\<close> returned and leaves the storage
  \<^verbatim>\<open>revokeCert\<close> produced and the lock free. With the lock held it waits at
  \<^verbatim>\<open>Lock()\<close>: nothing is returned or written and \<^verbatim>\<open>revokeCert\<close> is not called.
\<close>

definition performs_locked_write ::
  "('s, 'c) env \<Rightarrow> 'c \<Rightarrow> certificate \<Rightarrow> 's backend \<Rightarrow> outcome \<times> 's backend \<Rightarrow> bool" where
  "performs_locked_write env config cert b R =
     (fst R = returned (fst (revokeCert env (storage b) config cert))
      \<and> storage (snd R) = snd (revokeCert env (storage b) config cert)
      \<and> write_calls b (snd R) = locked_write cert
      \<and> \<not> revokeStorageLock (snd R))"

definition waits_for_lock :: "'s backend \<Rightarrow> outcome \<times> 's backend \<Rightarrow> bool" where
  "waits_for_lock b R =
     (fst R = BlockedOnLock
      \<and> storage (snd R) = storage b
      \<and> write_calls b (snd R) = []
      \<and> revokeStorageLock (snd R))"

text \<open>The run went on past the checks on the request fields: its first call fetches the configuration.\<close>

definition continues_to_config_fetch :: "'s backend \<Rightarrow> 's backend \<Rightarrow> bool" where
  "continues_to_config_fetch b b' = (take 1 (new_calls b b') = [CallGetConfigWithUpdate])"

subsection \<open>A concrete backend to run the handler on\<close>

record sample_store =
  certs :: "(string \<times> bytes) list"
  revoked :: "(string \<times> bytes) list"
  accounts :: "(string \<times> string) list"
  issued :: "(string \<times> string) list"

definition sample_cert :: certificate where
  "sample_cert = \<lparr>Raw = [48, 130, 1], NotAfter = 2000, SerialNumber = 17, PublicKey = [7, 7]\<rparr>"

definition other_cert :: certificate where
  "other_cert = \<lparr>Raw = [48, 130, 2], NotAfter = 2000, SerialNumber = 17, PublicKey = [9, 9]\<rparr>"

definition sample_fetch ::
  "sample_store \<Rightarrow> string \<Rightarrow> string \<Rightarrow> go_error + storageEntry option" where
  "sample_fetch st prefix serial =
     (if prefix = ''certs/''
      then Inr (map_option (\<lambda>v. \<lparr>EntryKey = prefix @ serial, Value = v\<rparr>) (map_of (certs st) serial))
      else if prefix = ''revoked/''
      then Inr (map_option (\<lambda>v. \<lparr>EntryKey = prefix @ serial, Value = v\<rparr>) (map_of (revoked st) serial))
      else Inl (Opaque ''unknown prefix''))"

definition sample_revokeCert ::
  "sample_store \<Rightarrow> unit \<Rightarrow> certificate \<Rightarrow> (go_error + response) \<times> sample_store" where
  "sample_revokeCert st config cert =
     (Inr (Response []), st\<lparr>revoked := (''11'', Raw cert) # revoked st\<rparr>)"

definition sample_env :: "(sample_store, unit) env" where
  "sample_env =
     \<lparr>Now = 1000,
      DecodeString = (\<lambda>s. if s = ''MIIB'' then Inr [48, 130, 1]
                          else if s = ''MIIC'' then Inr [48, 130, 2]
                          else Inl ''illegal base64 data''),
      ParseCertificate = (\<lambda>bs. if bs = [48, 130, 1] then Inr sample_cert
                               else if bs = [48, 130, 2] then Inr other_cert
                               else Inl ''x509: malformed certificate''),
      int_out_of_range = (\<lambda>f. - (2 ^ 63)),
      getConfigWithUpdate = (\<lambda>st. Inr ()),
      serialFromCert = (\<lambda>c. ''11''),
      fetchCertBySerial = sample_fetch,
      validatePrivateKeyMatchesCert =
        (\<lambda>signer c. if signer = PublicKey c then None else Some (Opaque ''public key mismatch'')),
      LoadAccount = (\<lambda>st kid. case map_of (accounts st) kid of
                                 None \<Rightarrow> Inl (Opaque ''account not found'')
                               | Some status \<Rightarrow> Inr \<lparr>Status = status\<rparr>),
      GetIssuedCert = (\<lambda>st kid serial. if (kid, serial) \<in> set (issued st) then Inr (Some [1])
                                        else Inr None),
      revokeCert = sample_revokeCert\<rparr>"

definition sample_storage :: sample_store where
  "sample_storage =
     \<lparr>certs = [(''11'', [48, 130, 1])], revoked = [],
      accounts = [(''alice'', ''valid''), (''bob'', ''deactivated'')],
      issued = [(''alice'', ''11'')]\<rparr>"

definition revoked_storage :: sample_store where
  "revoked_storage = sample_storage\<lparr>revoked := [(''11'', [48, 130, 1])]\<rparr>"

definition empty_storage :: sample_store where
  "empty_storage = \<lparr>certs = [], revoked = [], accounts = [], issued = []\<rparr>"

definition mismatched_storage :: sample_store where
  "mismatched_storage = sample_storage\<lparr>certs := [(''11'', [48, 130, 2])]\<rparr>"

text \<open>
  The same collaborators at other times, with a write that fails, and with an account
  store that cannot be read.
\<close>

definition boundary_env :: "(sample_store, unit) env" where
  "boundary_env = sample_env\<lparr>Now := 2000\<rparr>"

definition late_env :: "(sample_store, unit) env" where
  "late_env = sample_env\<lparr>Now := 2001\<rparr>"

definition failing_write_env :: "(sample_store, unit) env" where
  "failing_write_env =
     sample_env\<lparr>revokeCert := (\<lambda>st config cert. (Inl (Opaque ''storage write failed''), st))\<rparr>"

definition outage_env :: "(sample_store, unit) env" where
  "outage_env = sample_env\<lparr>LoadAccount := (\<lambda>st kid. Inl (Opaque ''storage unreachable''))\<rparr>"

definition backend_of :: "'s \<Rightarrow> 's backend" where
  "backend_of st = \<lparr>storage = st, revokeStorageLock = False, calls = []\<rparr>"

definition held_backend_of :: "'s \<Rightarrow> 's backend" where
  "held_backend_of st = \<lparr>storage = st, revokeStorageLock = True, calls = []\<rparr>"

definition sample_request :: "string \<rightharpoonup> json_value" where
  "sample_request = [''certificate'' \<mapsto> JString ''MIIB'']"

definition fractional_reason_request :: "string \<rightharpoonup> json_value" where
  "fractional_reason_request = [''certificate'' \<mapsto> JString ''MIIB'', ''reason'' \<mapsto> JNumber (1 / 2)]"

definition key_compromise_request :: "string \<rightharpoonup> json_value" where
  "key_compromise_request = [''certificate'' \<mapsto> JString ''MIIB'', ''reason'' \<mapsto> JNumber 1]"

definition alice :: jwsCtx where
  "alice = \<lparr>Existing = True, Kid = ''alice'', Key = NonSignerKey ''*rsa.PublicKey''\<rparr>"

definition bob :: jwsCtx where
  "bob = \<lparr>Existing = True, Kid = ''bob'', Key = NonSignerKey ''*rsa.PublicKey''\<rparr>"

definition key_holder :: jwsCtx where
  "key_holder = \<lparr>Existing = False, Kid = [], Key = SignerKey [7, 7]\<rparr>"

definition stranger :: jwsCtx where
  "stranger = \<lparr>Existing = False, Kid = [], Key = SignerKey [9, 9]\<rparr>"

section \<open>Shared lemmas\<close>

lemmas sample_defs =
  sample_env_def sample_storage_def revoked_storage_def empty_storage_def sample_cert_def
  other_cert_def sample_fetch_def sample_revokeCert_def sample_request_def backend_of_def held_backend_of_def
  alice_def bob_def key_holder_def stranger_def mismatched_storage_def
  boundary_env_def late_env_def failing_write_env_def outage_env_def fractional_reason_request_def
  key_compromise_request_def

lemmas path_defs =
  acmeRevocationByPoP_def acmeRevocationByAccount_def
  record_call_def Lock_def Unlock_def call_revokeCert_def

lemmas log_defs = new_calls_def write_calls_def locked_write_def

lemma presented_certificate_facts:
  assumes "presented_certificate env data = Some cert"
  obtains certBase64 certBytes where
    "data ''certificate'' = Some (JString certBase64)"
    "DecodeString env certBase64 = Inr certBytes"
    "ParseCertificate env certBytes = Inr cert"
  using assms unfolding presented_certificate_def
  by (auto split: option.splits sum.splits json_value.splits)

lemma reason_accepted_cases:
  assumes "reason_accepted env data"
  obtains "data ''reason'' = None"
  | reason where "data ''reason'' = Some (JNumber reason)"
      "float64_to_int (int_out_of_range env) reason = 0"
  using assms unfolding reason_accepted_def
  by (auto split: option.splits json_value.splits)

text \<open>An expired certificate is refused once the request fields are accepted.\<close>

lemma handler_expired:
  assumes "presented_certificate env data = Some cert"
      and "reason_accepted env data"
      and "Before (NotAfter cert) (Now env)"
  shows "acmeRevocationHandler env userCtx data b =
           (Failed (Errorf ''refusing to revoke expired certificate: %w'' (Sentinel ErrMalformed)), b)"
proof -
  from assms(1) obtain certBase64 certBytes where c:
    "data ''certificate'' = Some (JString certBase64)"
    "DecodeString env certBase64 = Inr certBytes"
    "ParseCertificate env certBytes = Inr cert"
    by (rule presented_certificate_facts)
  from assms(2) show ?thesis
  proof (cases rule: reason_accepted_cases)
    case 1
    with c assms(3) show ?thesis by (simp add: acmeRevocationHandler_def)
  next
    case (2 reason)
    with c assms(3) show ?thesis by (simp add: acmeRevocationHandler_def)
  qed
qed

text \<open>A request that passes section 4.1 continues with the configuration fetch.\<close>

lemma handler_validated:
  assumes "passes_input_validation env data cert"
  shows "acmeRevocationHandler env userCtx data b = handler_from_config_fetch env userCtx cert b"
proof -
  from assms have p: "presented_certificate env data = Some cert"
    and r: "reason_accepted env data" and t: "\<not> Before (NotAfter cert) (Now env)"
    by (simp_all add: passes_input_validation_def)
  from p obtain certBase64 certBytes where c:
    "data ''certificate'' = Some (JString certBase64)"
    "DecodeString env certBase64 = Inr certBytes"
    "ParseCertificate env certBytes = Inr cert"
    by (rule presented_certificate_facts)
  from r show ?thesis
  proof (cases rule: reason_accepted_cases)
    case 1
    with c t show ?thesis
      by (simp add: acmeRevocationHandler_def handler_from_config_fetch_def)
  next
    case (2 reason)
    with c t show ?thesis
      by (simp add: acmeRevocationHandler_def handler_from_config_fetch_def)
  qed
qed

text \<open>
  A request that passes the checks of sections 4.1 and 4.2 reaches the dispatch on
  \<open>Existing\<close>, after three lookups.
\<close>

lemma handler_reaches_dispatch:
  assumes "passes_input_validation env data cert"
      and "passes_record_store env (storage b) cert config"
  shows "acmeRevocationHandler env userCtx data b =
           (let b3 = b\<lparr>calls := calls b @
                        [CallGetConfigWithUpdate,
                         CallFetchCertBySerial ''certs/'' (serialFromCert env cert),
                         CallFetchCertBySerial ''revoked/'' (serialFromCert env cert)]\<rparr>
            in if \<not> Existing userCtx
               then acmeRevocationByPoP env userCtx cert config b3
               else acmeRevocationByAccount env userCtx cert config b3)"
proof -
  from assms(2) obtain certEntry where s:
    "getConfigWithUpdate env (storage b) = Inr config"
    "fetchCertBySerial env (storage b) ''certs/'' (serialFromCert env cert) = Inr (Some certEntry)"
    "Value certEntry = Raw cert"
    "fetchCertBySerial env (storage b) ''revoked/'' (serialFromCert env cert) = Inr None"
    unfolding passes_record_store_def stored_copy_matches_def
    by (auto split: sum.splits option.splits)
  show ?thesis
    unfolding handler_validated [OF assms(1)]
    using s by (simp add: handler_from_config_fetch_def record_call_def Let_def)
qed

text \<open>Each path either refuses without touching the lock, or writes under it.\<close>

lemma by_PoP_refused:
  assumes "\<not> pop_authorized env userCtx cert"
  shows "\<exists>e. acmeRevocationByPoP env userCtx cert config b = (Failed e, b) \<and> errors_Is e ErrMalformed"
  using assms
  by (auto simp: acmeRevocationByPoP_def pop_authorized_def split: key_material.splits option.splits)



lemma by_account_refused:
  assumes "\<not> account_authorized env userCtx (storage b) cert"
  shows "\<exists>e evs. acmeRevocationByAccount env userCtx cert config b = (Failed e, b\<lparr>calls := calls b @ evs\<rparr>)
           \<and> list_all is_lookup evs"
proof (cases "LoadAccount env (storage b) (Kid userCtx)")
  case (Inl err)
  then have "acmeRevocationByAccount env userCtx cert config b =
      (Failed (Errorf ''failed to lookup account: %w'' err),
       b\<lparr>calls := calls b @ [CallLoadAccount (Kid userCtx)]\<rparr>)"
    by (simp add: acmeRevocationByAccount_def record_call_def)
  moreover have "list_all is_lookup [CallLoadAccount (Kid userCtx)]" by simp
  ultimately show ?thesis by blast
next
  case (Inr account)
  show ?thesis
  proof (cases "Status account = AccountStatusValid")
    case False
    with Inr have "acmeRevocationByAccount env userCtx cert config b =
        (Failed (Errorf ''account isn't presently valid: %w'' (Sentinel ErrUnauthorized)),
         b\<lparr>calls := calls b @ [CallLoadAccount (Kid userCtx)]\<rparr>)"
      by (simp add: acmeRevocationByAccount_def record_call_def)
    moreover have "list_all is_lookup [CallLoadAccount (Kid userCtx)]" by simp
    ultimately show ?thesis by blast
  next
    case True
    with Inr assms
    have n: "\<forall>acmeEntry. GetIssuedCert env (storage b) (Kid userCtx) (serialFromCert env cert)
                \<noteq> Inr (Some acmeEntry)"
      by (auto simp: account_authorized_def)
    with Inr True have "acmeRevocationByAccount env userCtx cert config b =
        (Failed (Errorf ''unable to revoke certificate: %v: %w'' (Sentinel ErrMalformed)),
         b\<lparr>calls := calls b @ [CallLoadAccount (Kid userCtx),
                                CallGetIssuedCert (Kid userCtx) (serialFromCert env cert)]\<rparr>)"
      by (auto simp: acmeRevocationByAccount_def record_call_def Let_def
            split: sum.splits option.splits)
    moreover have "list_all is_lookup [CallLoadAccount (Kid userCtx),
                                CallGetIssuedCert (Kid userCtx) (serialFromCert env cert)]" by simp
    ultimately show ?thesis by blast
  qed
qed



text \<open>The second half of the handler: refused with lookups only, or the locked write.\<close>

lemma from_config_fetch_refused:
  assumes "\<not> (\<exists>config. passes_record_store env (storage b) cert config
                  \<and> passes_authorization env userCtx (storage b) cert)"
  shows "\<exists>e evs. handler_from_config_fetch env userCtx cert b = (Failed e, b\<lparr>calls := calls b @ evs\<rparr>)
           \<and> list_all is_lookup evs"
proof (cases "\<exists>config. passes_record_store env (storage b) cert config")
  case False
  then show ?thesis
    unfolding handler_from_config_fetch_def passes_record_store_def stored_copy_matches_def
      record_call_def
    by (auto simp: Let_def split: sum.splits option.splits)
next
  case True
  then obtain config where p: "passes_record_store env (storage b) cert config" by blast
  with assms have a: "\<not> passes_authorization env userCtx (storage b) cert" by blast
  define b3 where "b3 = b\<lparr>calls := calls b @
                        [CallGetConfigWithUpdate,
                         CallFetchCertBySerial ''certs/'' (serialFromCert env cert),
                         CallFetchCertBySerial ''revoked/'' (serialFromCert env cert)]\<rparr>"
  from p have h: "handler_from_config_fetch env userCtx cert b =
       (if \<not> Existing userCtx then acmeRevocationByPoP env userCtx cert config b3
        else acmeRevocationByAccount env userCtx cert config b3)"
    unfolding handler_from_config_fetch_def passes_record_store_def stored_copy_matches_def
      record_call_def b3_def
    by (auto simp: Let_def split: sum.splits option.splits)
  have s3: "storage b3 = storage b" by (simp add: b3_def)
  show ?thesis
  proof (cases "Existing userCtx")
    case False
    with a have "\<not> pop_authorized env userCtx cert" by (simp add: passes_authorization_def)
    from by_PoP_refused [OF this, of config b3] obtain e where
      "acmeRevocationByPoP env userCtx cert config b3 = (Failed e, b3)" by blast
    with h False have "handler_from_config_fetch env userCtx cert b =
        (Failed e, b\<lparr>calls := calls b @
                        [CallGetConfigWithUpdate,
                         CallFetchCertBySerial ''certs/'' (serialFromCert env cert),
                         CallFetchCertBySerial ''revoked/'' (serialFromCert env cert)]\<rparr>)"
      by (simp add: b3_def)
    moreover have "list_all is_lookup [CallGetConfigWithUpdate,
                         CallFetchCertBySerial ''certs/'' (serialFromCert env cert),
                         CallFetchCertBySerial ''revoked/'' (serialFromCert env cert)]" by simp
    ultimately show ?thesis by blast
  next
    case True
    with a s3 have "\<not> account_authorized env userCtx (storage b3) cert"
      by (simp add: passes_authorization_def)
    from by_account_refused [OF this, of config] obtain e evs where r:
      "acmeRevocationByAccount env userCtx cert config b3 = (Failed e, b3\<lparr>calls := calls b3 @ evs\<rparr>)"
      "list_all is_lookup evs" by blast
    with h True have "handler_from_config_fetch env userCtx cert b =
        (Failed e, b\<lparr>calls := calls b @
                        ([CallGetConfigWithUpdate,
                         CallFetchCertBySerial ''certs/'' (serialFromCert env cert),
                         CallFetchCertBySerial ''revoked/'' (serialFromCert env cert)] @ evs)\<rparr>)"
      by (simp add: b3_def)
    moreover from r(2) have "list_all is_lookup ([CallGetConfigWithUpdate,
                         CallFetchCertBySerial ''certs/'' (serialFromCert env cert),
                         CallFetchCertBySerial ''revoked/'' (serialFromCert env cert)] @ evs)" by simp
    ultimately show ?thesis by blast
  qed
qed





text \<open>Reading the log and the backend off the two shapes of outcome.\<close>

lemma refused_outcome:
  assumes "R = (out, b\<lparr>calls := calls b @ evs\<rparr>)" and "list_all is_lookup evs"
  shows "calls (snd R) = calls b @ new_calls b (snd R)"
    and "write_calls b (snd R) = []"
    and "storage (snd R) = storage b"
    and "revokeStorageLock (snd R) = revokeStorageLock b"
    and "new_calls b (snd R) = evs"
  using assms by (simp_all add: new_calls_def write_calls_def list_all_iff)


lemma from_config_fetch_first_call:
  "\<exists>evs. calls (snd (handler_from_config_fetch env userCtx cert b))
           = calls b @ CallGetConfigWithUpdate # evs"
  unfolding handler_from_config_fetch_def path_defs
  by (auto simp: Let_def split: sum.splits option.splits key_material.splits prod.splits)

lemma continues_after_validation:
  assumes "passes_input_validation env data cert"
  shows "continues_to_config_fetch b (snd (acmeRevocationHandler env userCtx data b))"
proof -
  from from_config_fetch_first_call [of env userCtx cert b] obtain evs where
    "calls (snd (handler_from_config_fetch env userCtx cert b))
       = calls b @ CallGetConfigWithUpdate # evs" by blast
  then show ?thesis
    unfolding handler_validated [OF assms]
    by (simp add: continues_to_config_fetch_def new_calls_def)
qed

lemma handler_no_certificate:
  assumes "presented_certificate env data = None"
  shows "\<exists>e. acmeRevocationHandler env userCtx data b = (Failed e, b) \<and> errors_Is e ErrMalformed"
proof (cases "data ''certificate''")
  case None
  then show ?thesis by (simp add: acmeRevocationHandler_def)
next
  case (Some rawCertificate)
  show ?thesis
  proof (cases rawCertificate)
    case (JString certBase64)
    show ?thesis
    proof (cases "DecodeString env certBase64")
      case (Inl err)
      with Some JString show ?thesis by (simp add: acmeRevocationHandler_def)
    next
      case (Inr certBytes)
      show ?thesis
      proof (cases "ParseCertificate env certBytes")
        case (Inl err)
        with Some JString Inr show ?thesis by (simp add: acmeRevocationHandler_def)
      next
        case (Inr cert)
        with Some JString \<open>DecodeString env certBase64 = Inr certBytes\<close> assms
        show ?thesis by (simp add: presented_certificate_def)
      qed
    qed
  qed (use Some in \<open>simp_all add: acmeRevocationHandler_def\<close>)
qed

lemma handler_reason_rejected:
  assumes "presented_certificate env data = Some cert"
      and "\<not> reason_accepted env data"
  shows "acmeRevocationHandler env userCtx data b =
           (case data ''reason'' of
              Some (JNumber reason) \<Rightarrow>
                (Failed (Errorf ''Vault does not support revocation reasons (got %v; expected omitted or 0/unspecified): %w''
                        (Sentinel ErrBadRevocationReason)), b)
            | _ \<Rightarrow>
                (Failed (Errorf ''invalid type (%T; expected float64) for field 'reason': %w''
                        (Sentinel ErrMalformed)), b))"
proof -
  from assms(1) obtain certBase64 certBytes where c:
    "data ''certificate'' = Some (JString certBase64)"
    "DecodeString env certBase64 = Inr certBytes"
    "ParseCertificate env certBytes = Inr cert"
    by (rule presented_certificate_facts)
  from assms(2) obtain rawReason where r: "data ''reason'' = Some rawReason"
    unfolding reason_accepted_def by (auto split: option.splits)
  show ?thesis
  proof (cases rawReason)
    case (JNumber reason)
    with r assms(2) have "float64_to_int (int_out_of_range env) reason \<noteq> 0"
      by (simp add: reason_accepted_def)
    with c r JNumber show ?thesis by (simp add: acmeRevocationHandler_def)
  qed (use c r in \<open>simp_all add: acmeRevocationHandler_def\<close>)
qed

lemma trunc_zero_iff: "(trunc_towards_zero f = 0) = (- 1 < f \<and> f < 1)"
  unfolding trunc_towards_zero_def
  by (auto simp: floor_eq_iff ceiling_eq_iff)

lemma float64_to_int_in_range:
  assumes "- (2 ^ 63) \<le> f" and "f < 2 ^ 63"
  shows "float64_to_int impl f = trunc_towards_zero f"
proof -
  have "- (2 ^ 63) \<le> trunc_towards_zero f"
    using assms(1) unfolding trunc_towards_zero_def by (auto simp: le_floor_iff le_ceiling_iff)
  moreover have "trunc_towards_zero f < 2 ^ 63"
    using assms(2) unfolding trunc_towards_zero_def by (auto simp: floor_less_iff ceiling_less_iff)
  ultimately show ?thesis by (simp add: float64_to_int_def Let_def)
qed

text \<open>A presented certificate that fails the remaining field checks is refused at once.\<close>

lemma handler_rejected_request:
  assumes "presented_certificate env data = Some cert"
      and "\<not> passes_input_validation env data cert"
  shows "\<exists>e. acmeRevocationHandler env userCtx data b = (Failed e, b)"
proof (cases "reason_accepted env data")
  case False
  from handler_reason_rejected [OF assms(1) False, of userCtx b] show ?thesis
    by (auto split: option.splits json_value.splits)
next
  case True
  with assms have "Before (NotAfter cert) (Now env)"
    by (simp add: passes_input_validation_def)
  from handler_expired [OF assms(1) True this] show ?thesis by blast
qed

text \<open>The whole handler: refused with lookups only, or the locked write.\<close>

lemma handler_refused:
  assumes "\<not> all_checks_pass env userCtx data (storage b)"
  shows "\<exists>e evs. acmeRevocationHandler env userCtx data b = (Failed e, b\<lparr>calls := calls b @ evs\<rparr>)
           \<and> list_all is_lookup evs"
proof (cases "presented_certificate env data")
  case None
  from handler_no_certificate [OF None, of userCtx b] obtain e where
    "acmeRevocationHandler env userCtx data b = (Failed e, b\<lparr>calls := calls b @ []\<rparr>)" by auto
  moreover have "list_all is_lookup []" by simp
  ultimately show ?thesis by blast
next
  case (Some cert)
  show ?thesis
  proof (cases "passes_input_validation env data cert")
    case False
    from handler_rejected_request [OF Some False, of userCtx b] obtain e where
      "acmeRevocationHandler env userCtx data b = (Failed e, b\<lparr>calls := calls b @ []\<rparr>)" by auto
    moreover have "list_all is_lookup []" by simp
    ultimately show ?thesis by blast
  next
    case True
    with Some assms
    have "\<not> (\<exists>config. passes_record_store env (storage b) cert config
                  \<and> passes_authorization env userCtx (storage b) cert)"
      by (auto simp: all_checks_pass_def passes_input_validation_def passes_record_store_def
            split: sum.splits)
    from from_config_fetch_refused [OF this] show ?thesis
      unfolding handler_validated [OF True] .
  qed
qed




text \<open>A revocation record, or a missing or different stored copy, rules the write out.\<close>

lemma revoked_record_fails_checks:
  assumes "presented_certificate env data = Some cert"
      and "fetchCertBySerial env (storage b) ''revoked/'' (serialFromCert env cert) = Inr (Some revEntry)"
  shows "\<not> all_checks_pass env userCtx data (storage b)"
  using assms by (auto simp: all_checks_pass_def passes_record_store_def split: sum.splits)

lemma unmatched_copy_fails_checks:
  assumes "presented_certificate env data = Some cert"
      and "\<not> stored_copy_matches env (storage b) cert"
  shows "\<not> all_checks_pass env userCtx data (storage b)"
  using assms by (auto simp: all_checks_pass_def passes_record_store_def split: sum.splits)

text \<open>Evaluating the handler and the conversion on the concrete backend.\<close>

lemmas run_defs =
  acmeRevocationHandler_def path_defs sample_defs Before_def AccountStatusValid_def Let_def
  returned_def

lemma float64_to_int_half: "float64_to_int impl (1 / 2) = 0"
proof -
  have "float64_to_int impl (1 / 2) = trunc_towards_zero (1 / 2)"
    by (rule float64_to_int_in_range) simp_all
  then show ?thesis by (simp add: trunc_zero_iff)
qed

lemma float64_to_int_one: "float64_to_int impl 1 = 1"
  by (simp add: float64_to_int_def trunc_towards_zero_def)

lemma sample_request_presents:
  "presented_certificate sample_env sample_request = Some sample_cert"
  by (simp add: presented_certificate_def sample_defs)

lemma sample_request_validated: "passes_input_validation sample_env sample_request sample_cert"
  by (simp add: passes_input_validation_def presented_certificate_def reason_accepted_def
        sample_defs Before_def)

lemma sample_record_store:
  "passes_record_store sample_env (storage (backend_of sample_storage)) sample_cert ()"
  by (simp add: passes_record_store_def stored_copy_matches_def sample_defs)

lemma sample_write:
  "revokeCert sample_env (storage (backend_of sample_storage)) () sample_cert
     = (Inr (Response []), revoked_storage)"
  by (simp add: sample_defs)

section \<open>The authorization paths\<close>

text \<open>
  C1. On the account path (\<open>Existing\<close> is true), for a request that has passed the
  checks on the request and on the stored records and whose account loads: the request
  proceeds to the locked write if and only if the account's status is valid and the
  issued-certificate lookup for (kid, serial) returns an entry. Proceeding means, with the
  lock free, that \<^verbatim>\<open>revokeCert\<close> is called once with the lock held, that its result is
  what the handler returns and its storage what the handler leaves, and that the lock is
  released; with the lock held by someone else it means waiting at \<^verbatim>\<open>Lock()\<close>.
  A status other than valid fails with Unauthorized; a valid status with no entry returned
  (absent, or the lookup itself failed) fails with Malformed; neither takes the lock nor
  changes the storage.
\<close>

theorem account_path_authorization:
  assumes "passes_input_validation env data cert"
      and "passes_record_store env (storage b) cert config"
      and "Existing userCtx"
      and "LoadAccount env (storage b) (Kid userCtx) = Inr account"
  shows "(let R = acmeRevocationHandler env userCtx data b;
              entry = GetIssuedCert env (storage b) (Kid userCtx) (serialFromCert env cert);
              authorized = (Status account = AccountStatusValid \<and> (\<exists>e. entry = Inr (Some e)))
          in (\<not> revokeStorageLock b \<longrightarrow> performs_locked_write env config cert b R = authorized)
           \<and> (revokeStorageLock b \<longrightarrow> waits_for_lock b R = authorized)
           \<and> (Status account \<noteq> AccountStatusValid \<longrightarrow>
                 (\<exists>e. fst R = Failed e \<and> errors_Is e ErrUnauthorized)
                 \<and> write_calls b (snd R) = [] \<and> storage (snd R) = storage b)
           \<and> (Status account = AccountStatusValid \<and> (\<forall>e. entry \<noteq> Inr (Some e)) \<longrightarrow>
                 (\<exists>e. fst R = Failed e \<and> errors_Is e ErrMalformed)
                 \<and> write_calls b (snd R) = [] \<and> storage (snd R) = storage b))"
  unfolding handler_reaches_dispatch [OF assms(1,2)]
  using assms(3,4)
  by (auto simp: path_defs log_defs performs_locked_write_def waits_for_lock_def Let_def
        split: sum.splits option.splits prod.splits)

theorem account_path_authorization_witness:
  "passes_input_validation sample_env sample_request sample_cert
   \<and> passes_record_store sample_env (storage (backend_of sample_storage)) sample_cert ()
   \<and> Existing alice \<and> Existing bob
   \<and> LoadAccount sample_env (storage (backend_of sample_storage)) (Kid alice) = Inr \<lparr>Status = ''valid''\<rparr>
   \<and> LoadAccount sample_env (storage (backend_of sample_storage)) (Kid bob)
       = Inr \<lparr>Status = ''deactivated''\<rparr>
   \<and> fst (acmeRevocationHandler sample_env alice sample_request (backend_of sample_storage))
       = Succeeded (Response [])
   \<and> storage (snd (acmeRevocationHandler sample_env alice sample_request (backend_of sample_storage)))
       = revoked_storage
   \<and> write_calls (backend_of sample_storage)
        (snd (acmeRevocationHandler sample_env alice sample_request (backend_of sample_storage)))
       = locked_write sample_cert
   \<and> (\<exists>e. fst (acmeRevocationHandler sample_env bob sample_request (backend_of sample_storage))
              = Failed e \<and> errors_Is e ErrUnauthorized)
   \<and> storage (snd (acmeRevocationHandler sample_env bob sample_request (backend_of sample_storage)))
       = sample_storage"
proof -
  note h1 = sample_request_validated and h2 = sample_record_store
  have h3: "Existing alice" and h3': "Existing bob"
    by (simp_all add: alice_def bob_def)
  have h4: "LoadAccount sample_env (storage (backend_of sample_storage)) (Kid alice)
              = Inr \<lparr>Status = ''valid''\<rparr>"
    by (simp add: sample_defs)
  have h4': "LoadAccount sample_env (storage (backend_of sample_storage)) (Kid bob)
              = Inr \<lparr>Status = ''deactivated''\<rparr>"
    by (simp add: sample_defs)
  have e: "GetIssuedCert sample_env (storage (backend_of sample_storage)) (Kid alice)
             (serialFromCert sample_env sample_cert) = Inr (Some [1])"
    by (simp add: sample_defs)
  have v: "Status \<lparr>Status = ''valid''\<rparr> = AccountStatusValid"
    and v': "Status \<lparr>Status = ''deactivated''\<rparr> \<noteq> AccountStatusValid"
    by (simp_all add: AccountStatusValid_def)
  have f: "\<not> revokeStorageLock (backend_of sample_storage)"
    and s: "storage (backend_of sample_storage) = sample_storage"
    by (simp_all add: backend_of_def)
  from account_path_authorization [OF h1 h2 h3 h4] e v f
  have "performs_locked_write sample_env () sample_cert (backend_of sample_storage)
          (acmeRevocationHandler sample_env alice sample_request (backend_of sample_storage))"
    by (simp add: Let_def)
  then have a: "fst (acmeRevocationHandler sample_env alice sample_request (backend_of sample_storage))
         = Succeeded (Response [])
      \<and> storage (snd (acmeRevocationHandler sample_env alice sample_request (backend_of sample_storage)))
         = revoked_storage
      \<and> write_calls (backend_of sample_storage)
          (snd (acmeRevocationHandler sample_env alice sample_request (backend_of sample_storage)))
         = locked_write sample_cert"
    by (simp add: performs_locked_write_def sample_write returned_def)
  from account_path_authorization [OF h1 h2 h3' h4'] v' s
  have b: "(\<exists>e. fst (acmeRevocationHandler sample_env bob sample_request (backend_of sample_storage))
              = Failed e \<and> errors_Is e ErrUnauthorized)
      \<and> storage (snd (acmeRevocationHandler sample_env bob sample_request (backend_of sample_storage)))
         = sample_storage"
    by (simp add: Let_def)
  from a b h1 h2 h3 h3' h4 h4' show ?thesis by simp
qed

text \<open>
  C2. On the proof-of-possession path (\<open>Existing\<close> is false), for a request that has
  passed the checks on the request and on the stored records: the request proceeds to the
  locked write if and only if the request's key is a signer and
  \<^verbatim>\<open>validatePrivateKeyMatchesCert\<close> finds that it matches the certificate's public key.
  Proceeding means, with the lock free, that \<^verbatim>\<open>revokeCert\<close> is called once with the lock
  held, that its result is what the handler returns and its storage what the handler
  leaves, and that the lock is released; with the lock held by someone else it means
  waiting at \<^verbatim>\<open>Lock()\<close>. A key that is no signer fails with Malformed, and so does
  a mismatch; neither takes the lock nor changes the storage.
\<close>

theorem pop_path_authorization:
  assumes "passes_input_validation env data cert"
      and "passes_record_store env (storage b) cert config"
      and "\<not> Existing userCtx"
  shows "(let R = acmeRevocationHandler env userCtx data b;
              authorized = (\<exists>signer. Key userCtx = SignerKey signer
                              \<and> validatePrivateKeyMatchesCert env signer cert = None)
          in (\<not> revokeStorageLock b \<longrightarrow> performs_locked_write env config cert b R = authorized)
           \<and> (revokeStorageLock b \<longrightarrow> waits_for_lock b R = authorized)
           \<and> ((\<exists>ty. Key userCtx = NonSignerKey ty) \<longrightarrow>
                 (\<exists>e. fst R = Failed e \<and> errors_Is e ErrMalformed)
                 \<and> write_calls b (snd R) = [] \<and> storage (snd R) = storage b)
           \<and> ((\<exists>signer err. Key userCtx = SignerKey signer
                      \<and> validatePrivateKeyMatchesCert env signer cert = Some err) \<longrightarrow>
                 (\<exists>e. fst R = Failed e \<and> errors_Is e ErrMalformed)
                 \<and> write_calls b (snd R) = [] \<and> storage (snd R) = storage b))"
  unfolding handler_reaches_dispatch [OF assms(1,2)]
  using assms(3)
  by (auto simp: path_defs log_defs performs_locked_write_def waits_for_lock_def Let_def
        split: key_material.splits option.splits prod.splits)

theorem pop_path_authorization_witness:
  "passes_input_validation sample_env sample_request sample_cert
   \<and> passes_record_store sample_env (storage (backend_of sample_storage)) sample_cert ()
   \<and> \<not> Existing key_holder \<and> \<not> Existing stranger
   \<and> fst (acmeRevocationHandler sample_env key_holder sample_request (backend_of sample_storage))
       = Succeeded (Response [])
   \<and> storage (snd (acmeRevocationHandler sample_env key_holder sample_request (backend_of sample_storage)))
       = revoked_storage
   \<and> write_calls (backend_of sample_storage)
        (snd (acmeRevocationHandler sample_env key_holder sample_request (backend_of sample_storage)))
       = locked_write sample_cert
   \<and> (\<exists>e. fst (acmeRevocationHandler sample_env stranger sample_request (backend_of sample_storage))
              = Failed e \<and> errors_Is e ErrMalformed)
   \<and> storage (snd (acmeRevocationHandler sample_env stranger sample_request (backend_of sample_storage)))
       = sample_storage"
proof -
  note h1 = sample_request_validated and h2 = sample_record_store
  have h3: "\<not> Existing key_holder" and h3': "\<not> Existing stranger"
    by (simp_all add: key_holder_def stranger_def)
  have k: "Key key_holder = SignerKey [7, 7]" and k': "Key stranger = SignerKey [9, 9]"
    by (simp_all add: key_holder_def stranger_def)
  have m: "validatePrivateKeyMatchesCert sample_env [7, 7] sample_cert = None"
    and m': "validatePrivateKeyMatchesCert sample_env [9, 9] sample_cert
               = Some (Opaque ''public key mismatch'')"
    by (simp_all add: sample_defs)
  have f: "\<not> revokeStorageLock (backend_of sample_storage)"
    and s: "storage (backend_of sample_storage) = sample_storage"
    by (simp_all add: backend_of_def)
  from pop_path_authorization [OF h1 h2 h3] k m f
  have "performs_locked_write sample_env () sample_cert (backend_of sample_storage)
          (acmeRevocationHandler sample_env key_holder sample_request (backend_of sample_storage))"
    by (simp add: Let_def)
  then have a: "fst (acmeRevocationHandler sample_env key_holder sample_request (backend_of sample_storage))
         = Succeeded (Response [])
      \<and> storage (snd (acmeRevocationHandler sample_env key_holder sample_request (backend_of sample_storage)))
         = revoked_storage
      \<and> write_calls (backend_of sample_storage)
          (snd (acmeRevocationHandler sample_env key_holder sample_request (backend_of sample_storage)))
         = locked_write sample_cert"
    by (simp add: performs_locked_write_def sample_write returned_def)
  from pop_path_authorization [OF h1 h2 h3'] k' m' s
  have b: "(\<exists>e. fst (acmeRevocationHandler sample_env stranger sample_request (backend_of sample_storage))
              = Failed e \<and> errors_Is e ErrMalformed)
      \<and> storage (snd (acmeRevocationHandler sample_env stranger sample_request (backend_of sample_storage)))
         = sample_storage"
    by (simp add: Let_def)
  from a b h1 h2 h3 h3' show ?thesis by simp
qed

section \<open>The stored records\<close>

text \<open>
  C7. A request whose certificate has no entry under \<^verbatim>\<open>certs/\<close> for its serial
  always fails, without taking the lock or writing. When its fields are accepted the error
  is ServerInternal and matches no other kind of error.
\<close>

theorem missing_certs_entry_is_server_internal:
  assumes "presented_certificate env data = Some cert"
      and "fetchCertBySerial env (storage b) ''certs/'' (serialFromCert env cert) = Inr None"
  shows "(let R = acmeRevocationHandler env userCtx data b
          in (\<exists>e. fst R = Failed e)
           \<and> write_calls b (snd R) = []
           \<and> storage (snd R) = storage b
           \<and> (passes_input_validation env data cert
                \<longrightarrow> (\<exists>e. fst R = Failed e \<and> errors_Is e ErrServerInternal
                        \<and> (\<forall>t. errors_Is e t \<longrightarrow> t = ErrServerInternal))))"
proof -
  let ?R = "acmeRevocationHandler env userCtx data b"
  from assms(2) have "\<not> stored_copy_matches env (storage b) cert"
    by (simp add: stored_copy_matches_def)
  from handler_refused [OF unmatched_copy_fails_checks [OF assms(1) this]] obtain e evs where
    r: "?R = (Failed e, b\<lparr>calls := calls b @ evs\<rparr>)" "list_all is_lookup evs" by blast
  note o = refused_outcome [OF r]
  have k: "\<exists>e. fst ?R = Failed e \<and> errors_Is e ErrServerInternal
                \<and> (\<forall>t. errors_Is e t \<longrightarrow> t = ErrServerInternal)"
    if v: "passes_input_validation env data cert"
    using assms(2) unfolding handler_validated [OF v]
    by (cases "getConfigWithUpdate env (storage b)")
       (simp_all add: handler_from_config_fetch_def record_call_def Let_def)
  from r(1) o(2,3) k show ?thesis unfolding Let_def by auto
qed

theorem missing_certs_entry_is_server_internal_witness:
  "presented_certificate sample_env sample_request = Some sample_cert
   \<and> fetchCertBySerial sample_env (storage (backend_of empty_storage)) ''certs/''
        (serialFromCert sample_env sample_cert) = Inr None
   \<and> (\<exists>e. fst (acmeRevocationHandler sample_env key_holder sample_request (backend_of empty_storage)) = Failed e
          \<and> errors_Is e ErrServerInternal)
   \<and> write_calls (backend_of empty_storage)
        (snd (acmeRevocationHandler sample_env key_holder sample_request (backend_of empty_storage))) = []"
proof -
  note h1 = sample_request_presents
  have h2: "fetchCertBySerial sample_env (storage (backend_of empty_storage)) ''certs/''
              (serialFromCert sample_env sample_cert) = Inr None"
    by (simp add: sample_defs)
  from missing_certs_entry_is_server_internal [OF h1 h2, of key_holder]
       sample_request_validated h1 h2
  show ?thesis by (auto simp: Let_def)
qed

text \<open>
  C8. A request whose certificate differs from the bytes stored under \<^verbatim>\<open>certs/\<close> for
  its serial always fails, and its run calls nothing but the configuration fetch and the
  \<^verbatim>\<open>certs/\<close> lookup: no \<^verbatim>\<open>revoked/\<close> lookup, no authorization, no write. When its
  fields are accepted and the configuration is read, the error is Malformed.
\<close>

theorem stored_copy_mismatch_is_malformed:
  assumes "presented_certificate env data = Some cert"
      and "fetchCertBySerial env (storage b) ''certs/'' (serialFromCert env cert) = Inr (Some certEntry)"
      and "Value certEntry \<noteq> Raw cert"
  shows "(let R = acmeRevocationHandler env userCtx data b
          in (\<exists>e. fst R = Failed e)
           \<and> set (new_calls b (snd R))
                \<subseteq> {CallGetConfigWithUpdate, CallFetchCertBySerial ''certs/'' (serialFromCert env cert)}
           \<and> storage (snd R) = storage b
           \<and> revokeStorageLock (snd R) = revokeStorageLock b
           \<and> (passes_input_validation env data cert
                \<and> (\<exists>config. getConfigWithUpdate env (storage b) = Inr config)
                \<longrightarrow> (\<exists>e. fst R = Failed e \<and> errors_Is e ErrMalformed)
                    \<and> new_calls b (snd R) =
                        [CallGetConfigWithUpdate,
                         CallFetchCertBySerial ''certs/'' (serialFromCert env cert)]))"
proof (cases "passes_input_validation env data cert")
  case False
  from handler_rejected_request [OF assms(1) False, of userCtx b] False show ?thesis
    by (auto simp: new_calls_def Let_def)
next
  case True
  show ?thesis
    using assms(2,3) True unfolding handler_validated [OF True]
    by (cases "getConfigWithUpdate env (storage b)")
       (simp_all add: handler_from_config_fetch_def record_call_def new_calls_def Let_def)
qed

theorem stored_copy_mismatch_is_malformed_witness:
  "presented_certificate sample_env sample_request = Some sample_cert
   \<and> fetchCertBySerial sample_env (storage (backend_of mismatched_storage)) ''certs/''
        (serialFromCert sample_env sample_cert)
       = Inr (Some \<lparr>EntryKey = ''certs/11'', Value = [48, 130, 2]\<rparr>)
   \<and> [48, 130, 2] \<noteq> Raw sample_cert
   \<and> (\<exists>e. fst (acmeRevocationHandler sample_env key_holder sample_request (backend_of mismatched_storage)) = Failed e
          \<and> errors_Is e ErrMalformed)
   \<and> new_calls (backend_of mismatched_storage)
        (snd (acmeRevocationHandler sample_env key_holder sample_request (backend_of mismatched_storage)))
       = [CallGetConfigWithUpdate, CallFetchCertBySerial ''certs/'' ''11'']"
proof -
  note h1 = sample_request_presents
  have h2: "fetchCertBySerial sample_env (storage (backend_of mismatched_storage)) ''certs/''
              (serialFromCert sample_env sample_cert)
            = Inr (Some \<lparr>EntryKey = ''certs/11'', Value = [48, 130, 2]\<rparr>)"
    by (simp add: sample_defs)
  have h3: "Value \<lparr>EntryKey = ''certs/11'', Value = [48, 130, 2]\<rparr> \<noteq> Raw sample_cert"
    by (simp add: sample_cert_def)
  have g: "\<exists>config. getConfigWithUpdate sample_env (storage (backend_of mismatched_storage)) = Inr config"
    by (simp add: sample_defs)
  have n: "serialFromCert sample_env sample_cert = ''11''"
    by (simp add: sample_env_def)
  from stored_copy_mismatch_is_malformed [OF h1 h2 h3, of key_holder]
       sample_request_validated g h1 h2 h3 n
  show ?thesis by (simp add: Let_def)
qed

text \<open>
  C3. A request whose certificate's serial has a record under \<^verbatim>\<open>revoked/\<close> always
  fails and writes nothing: the lock is not taken, \<^verbatim>\<open>revokeCert\<close> is not called, and the
  storage, with it the revocation record, is what it was. When the request reaches the
  lookup (its fields are accepted, the configuration is read, the stored copy matches) the
  error is AlreadyRevoked.
\<close>

theorem already_revoked_rejected:
  assumes "presented_certificate env data = Some cert"
      and "fetchCertBySerial env (storage b) ''revoked/'' (serialFromCert env cert) = Inr (Some revEntry)"
  shows "(let R = acmeRevocationHandler env userCtx data b
          in (\<exists>e. fst R = Failed e)
           \<and> write_calls b (snd R) = []
           \<and> storage (snd R) = storage b
           \<and> fetchCertBySerial env (storage (snd R)) ''revoked/'' (serialFromCert env cert)
                = Inr (Some revEntry)
           \<and> revokeStorageLock (snd R) = revokeStorageLock b
           \<and> (passes_input_validation env data cert
                \<and> (\<exists>config. getConfigWithUpdate env (storage b) = Inr config)
                \<and> stored_copy_matches env (storage b) cert
                \<longrightarrow> (\<exists>e. fst R = Failed e \<and> errors_Is e ErrAlreadyRevoked)))"
proof -
  let ?R = "acmeRevocationHandler env userCtx data b"
  from handler_refused [OF revoked_record_fails_checks [OF assms]] obtain e evs where
    r: "?R = (Failed e, b\<lparr>calls := calls b @ evs\<rparr>)" "list_all is_lookup evs" by blast
  note o = refused_outcome [OF r]
  have k: "\<exists>e. fst ?R = Failed e \<and> errors_Is e ErrAlreadyRevoked"
    if v: "passes_input_validation env data cert"
      and g: "getConfigWithUpdate env (storage b) = Inr config"
      and m: "stored_copy_matches env (storage b) cert" for config
  proof -
    from m obtain certEntry where
      "fetchCertBySerial env (storage b) ''certs/'' (serialFromCert env cert) = Inr (Some certEntry)"
      "Value certEntry = Raw cert"
      unfolding stored_copy_matches_def by (auto split: sum.splits option.splits)
    with g assms(2) show ?thesis
      unfolding handler_validated [OF v]
      by (simp add: handler_from_config_fetch_def record_call_def Let_def)
  qed
  from r(1) o(2,3,4) assms(2) k show ?thesis unfolding Let_def by auto
qed

theorem already_revoked_rejected_witness:
  "presented_certificate sample_env sample_request = Some sample_cert
   \<and> fetchCertBySerial sample_env (storage (backend_of revoked_storage)) ''revoked/''
        (serialFromCert sample_env sample_cert)
       = Inr (Some \<lparr>EntryKey = ''revoked/11'', Value = [48, 130, 1]\<rparr>)
   \<and> (\<exists>e. fst (acmeRevocationHandler sample_env key_holder sample_request (backend_of revoked_storage)) = Failed e
          \<and> errors_Is e ErrAlreadyRevoked)
   \<and> storage (snd (acmeRevocationHandler sample_env key_holder sample_request (backend_of revoked_storage)))
       = revoked_storage"
proof -
  note h1 = sample_request_presents
  have h2: "fetchCertBySerial sample_env (storage (backend_of revoked_storage)) ''revoked/''
              (serialFromCert sample_env sample_cert)
            = Inr (Some \<lparr>EntryKey = ''revoked/11'', Value = [48, 130, 1]\<rparr>)"
    by (simp add: sample_defs)
  have g: "\<exists>config. getConfigWithUpdate sample_env (storage (backend_of revoked_storage)) = Inr config"
    by (simp add: sample_defs)
  have m: "stored_copy_matches sample_env (storage (backend_of revoked_storage)) sample_cert"
    by (simp add: stored_copy_matches_def sample_defs)
  have s: "storage (backend_of revoked_storage) = revoked_storage"
    by (simp add: backend_of_def)
  from already_revoked_rejected [OF h1 h2, of key_holder] sample_request_validated g m s h1 h2
  show ?thesis by (simp add: Let_def)
qed

text \<open>
  C10. For a request presenting a certificate equal to the stored copy whose serial has a
  revocation record, the outcome does not depend on the caller's identity context nor on
  the three authorization collaborators, and the run calls none of the account lookups.
  When the fields are accepted and the configuration is read, the outcome is AlreadyRevoked
  after exactly the configuration fetch and the two record lookups.
\<close>

theorem already_revoked_before_authorization:
  assumes "presented_certificate env data = Some cert"
      and "stored_copy_matches env (storage b) cert"
      and "fetchCertBySerial env (storage b) ''revoked/'' (serialFromCert env cert) = Inr (Some revEntry)"
  shows "(let R = acmeRevocationHandler env userCtx data b
          in acmeRevocationHandler
                (env\<lparr>validatePrivateKeyMatchesCert := v, LoadAccount := la, GetIssuedCert := gi\<rparr>)
                userCtx' data b = R
           \<and> \<not> list_ex is_authorization_call (new_calls b (snd R))
           \<and> (passes_input_validation env data cert
                \<and> (\<exists>config. getConfigWithUpdate env (storage b) = Inr config)
                \<longrightarrow> fst R = Failed (Errorf ''unable to revoke certificate: %w'' (Sentinel ErrAlreadyRevoked))
                    \<and> new_calls b (snd R) =
                        [CallGetConfigWithUpdate,
                         CallFetchCertBySerial ''certs/'' (serialFromCert env cert),
                         CallFetchCertBySerial ''revoked/'' (serialFromCert env cert)]))"
proof -
  let ?env' = "env\<lparr>validatePrivateKeyMatchesCert := v, LoadAccount := la, GetIssuedCert := gi\<rparr>"
  from assms(1) have c': "presented_certificate ?env' data = Some cert"
    by (auto simp: presented_certificate_def split: option.splits json_value.splits sum.splits)
  have r': "reason_accepted ?env' data = reason_accepted env data"
    by (auto simp: reason_accepted_def split: option.splits json_value.splits)
  from assms(2) obtain certEntry where m:
    "fetchCertBySerial env (storage b) ''certs/'' (serialFromCert env cert) = Inr (Some certEntry)"
    "Value certEntry = Raw cert"
    unfolding stored_copy_matches_def by (auto split: sum.splits option.splits)
  show ?thesis
  proof (cases "reason_accepted env data")
    case False
    with r' have "\<not> reason_accepted ?env' data" by simp
    from handler_reason_rejected [OF c' this, of userCtx' b]
         handler_reason_rejected [OF assms(1) False, of userCtx b] False
    show ?thesis
      by (auto simp: new_calls_def passes_input_validation_def Let_def
            split: option.splits json_value.splits)
  next
    case True
    with r' have t': "reason_accepted ?env' data" by simp
    show ?thesis
    proof (cases "Before (NotAfter cert) (Now env)")
      case expired: True
      then have "Before (NotAfter cert) (Now ?env')" by simp
      from handler_expired [OF c' t' this, of userCtx' b]
           handler_expired [OF assms(1) True expired, of userCtx b] expired
      show ?thesis by (simp add: new_calls_def passes_input_validation_def Let_def)
    next
      case False
      with assms(1) True have v: "passes_input_validation env data cert"
        by (simp add: passes_input_validation_def)
      from c' t' False have v': "passes_input_validation ?env' data cert"
        by (simp add: passes_input_validation_def)
      show ?thesis
        using m assms(3) unfolding handler_validated [OF v] handler_validated [OF v']
        by (cases "getConfigWithUpdate env (storage b)")
           (simp_all add: handler_from_config_fetch_def record_call_def new_calls_def Let_def)
    qed
  qed
qed

theorem already_revoked_before_authorization_witness:
  "presented_certificate sample_env sample_request = Some sample_cert
   \<and> stored_copy_matches sample_env (storage (backend_of revoked_storage)) sample_cert
   \<and> \<not> pop_authorized sample_env stranger sample_cert
   \<and> fst (acmeRevocationHandler sample_env stranger sample_request (backend_of revoked_storage))
       = Failed (Errorf ''unable to revoke certificate: %w'' (Sentinel ErrAlreadyRevoked))
   \<and> acmeRevocationHandler sample_env bob sample_request (backend_of revoked_storage)
       = acmeRevocationHandler sample_env stranger sample_request (backend_of revoked_storage)"
proof -
  note h1 = sample_request_presents
  have h2: "stored_copy_matches sample_env (storage (backend_of revoked_storage)) sample_cert"
    by (simp add: stored_copy_matches_def sample_defs)
  have h3: "fetchCertBySerial sample_env (storage (backend_of revoked_storage)) ''revoked/''
              (serialFromCert sample_env sample_cert)
            = Inr (Some \<lparr>EntryKey = ''revoked/11'', Value = [48, 130, 1]\<rparr>)"
    by (simp add: sample_defs)
  have g: "\<exists>config. getConfigWithUpdate sample_env (storage (backend_of revoked_storage)) = Inr config"
    by (simp add: sample_defs)
  have p: "\<not> pop_authorized sample_env stranger sample_cert"
    by (simp add: pop_authorized_def sample_defs)
  have same: "sample_env\<lparr>validatePrivateKeyMatchesCert := validatePrivateKeyMatchesCert sample_env,
                         LoadAccount := LoadAccount sample_env,
                         GetIssuedCert := GetIssuedCert sample_env\<rparr> = sample_env"
    by simp
  from already_revoked_before_authorization [OF h1 h2 h3,
      where v = "validatePrivateKeyMatchesCert sample_env" and la = "LoadAccount sample_env"
        and gi = "GetIssuedCert sample_env" and userCtx' = bob and userCtx = stranger]
    same sample_request_validated g h1 h2 p
  show ?thesis by (simp add: Let_def)
qed

section \<open>The request fields\<close>

text \<open>
  C6. A numeric \<^verbatim>\<open>reason\<close> other than 0 is to fail with BadRevocationReason. The
  handler refuses the reason 1 so, saying that it expects the field omitted or 0. The
  reason one half is not 0 either, yet the handler accepts it, since \<^verbatim>\<open>int(reason)\<close> drops
  the fraction before the comparison with 0: the certificate is revoked.
\<close>

theorem fractional_reason_accepted:
  "fractional_reason_request ''reason'' = Some (JNumber (1 / 2))
   \<and> fst (acmeRevocationHandler sample_env alice fractional_reason_request (backend_of sample_storage))
       = Succeeded (Response [])
   \<and> storage (snd (acmeRevocationHandler sample_env alice fractional_reason_request
                      (backend_of sample_storage)))
       = revoked_storage
   \<and> fst (acmeRevocationHandler sample_env alice key_compromise_request (backend_of sample_storage))
       = Failed (Errorf ''Vault does not support revocation reasons (got %v; expected omitted or 0/unspecified): %w''
                   (Sentinel ErrBadRevocationReason))"
  by (simp add: run_defs float64_to_int_half float64_to_int_one)

text \<open>
  C5, amended. For a request whose certificate parses and whose \<^verbatim>\<open>reason\<close> field is
  accepted: when \<open>NotAfter\<close> is strictly earlier than the current time the handler fails
  with Malformed ("refusing to revoke expired certificate") and the backend is untouched, so
  no lookup was made; when \<open>NotAfter\<close> is the current time or later the handler goes on
  to fetch the configuration.
\<close>

theorem expired_certificate_refused:
  assumes "presented_certificate env data = Some cert"
      and "reason_accepted env data"
  shows "(let R = acmeRevocationHandler env userCtx data b
          in (NotAfter cert < Now env \<longrightarrow>
                R = (Failed (Errorf ''refusing to revoke expired certificate: %w'' (Sentinel ErrMalformed)), b))
           \<and> (Now env \<le> NotAfter cert \<longrightarrow> continues_to_config_fetch b (snd R)))"
proof (cases "NotAfter cert < Now env")
  case True
  then have "Before (NotAfter cert) (Now env)" by (simp add: Before_def)
  from handler_expired [OF assms this] True show ?thesis by (simp add: Let_def)
next
  case False
  with assms have "passes_input_validation env data cert"
    by (simp add: passes_input_validation_def Before_def)
  from continues_after_validation [OF this] False show ?thesis by (simp add: Let_def)
qed

theorem expired_certificate_refused_witness:
  "presented_certificate late_env sample_request = Some sample_cert
   \<and> reason_accepted late_env sample_request
   \<and> NotAfter sample_cert < Now late_env
   \<and> acmeRevocationHandler late_env alice sample_request (backend_of sample_storage)
       = (Failed (Errorf ''refusing to revoke expired certificate: %w'' (Sentinel ErrMalformed)),
          backend_of sample_storage)"
proof -
  have h1: "presented_certificate late_env sample_request = Some sample_cert"
    by (simp add: presented_certificate_def sample_defs)
  have h2: "reason_accepted late_env sample_request"
    by (simp add: reason_accepted_def sample_defs)
  have t: "NotAfter sample_cert < Now late_env"
    by (simp add: sample_defs)
  from expired_certificate_refused [OF h1 h2, of alice "backend_of sample_storage"] t h1 h2
  show ?thesis by (simp add: Let_def)
qed

text \<open>
  At \<open>NotAfter\<close> equal to the current time the certificate is not refused: the
  revocation goes through.
\<close>

theorem expiry_boundary_counterexample:
  "presented_certificate boundary_env sample_request = Some sample_cert
   \<and> NotAfter sample_cert = Now boundary_env
   \<and> fst (acmeRevocationHandler boundary_env alice sample_request (backend_of sample_storage))
       = Succeeded (Response [])"
  by (simp add: presented_certificate_def run_defs)

section \<open>The account lookup\<close>

text \<open>
  C9, amended. On the account path, when \<^verbatim>\<open>LoadAccount\<close> returns an error the handler
  fails with that error wrapped under the context "failed to lookup account". The wrapped
  error matches exactly the kinds the lookup's error matches: the handler adds no
  ServerInternal of its own. Nothing is written.
\<close>

theorem account_lookup_error_is_wrapped:
  assumes "passes_input_validation env data cert"
      and "passes_record_store env (storage b) cert config"
      and "Existing userCtx"
      and "LoadAccount env (storage b) (Kid userCtx) = Inl err"
  shows "(let R = acmeRevocationHandler env userCtx data b
          in fst R = Failed (Errorf ''failed to lookup account: %w'' err)
           \<and> (\<forall>t. errors_Is (Errorf ''failed to lookup account: %w'' err) t = errors_Is err t)
           \<and> write_calls b (snd R) = []
           \<and> storage (snd R) = storage b)"
  unfolding handler_reaches_dispatch [OF assms(1,2)]
  using assms(3,4)
  by (simp add: acmeRevocationByAccount_def record_call_def log_defs Let_def)

theorem account_lookup_error_is_wrapped_witness:
  "passes_input_validation outage_env sample_request sample_cert
   \<and> passes_record_store outage_env (storage (backend_of sample_storage)) sample_cert ()
   \<and> Existing alice
   \<and> LoadAccount outage_env (storage (backend_of sample_storage)) (Kid alice)
       = Inl (Opaque ''storage unreachable'')
   \<and> fst (acmeRevocationHandler outage_env alice sample_request (backend_of sample_storage))
       = Failed (Errorf ''failed to lookup account: %w'' (Opaque ''storage unreachable''))"
proof -
  have h1: "passes_input_validation outage_env sample_request sample_cert"
    by (simp add: passes_input_validation_def presented_certificate_def reason_accepted_def
          sample_defs Before_def)
  have h2: "passes_record_store outage_env (storage (backend_of sample_storage)) sample_cert ()"
    by (simp add: passes_record_store_def stored_copy_matches_def sample_defs)
  have h3: "Existing alice"
    by (simp add: alice_def)
  have h4: "LoadAccount outage_env (storage (backend_of sample_storage)) (Kid alice)
              = Inl (Opaque ''storage unreachable'')"
    by (simp add: sample_defs)
  from account_lookup_error_is_wrapped [OF h1 h2 h3 h4] h1 h2 h3 h4
  show ?thesis by (simp add: Let_def)
qed

text \<open>
  A storage failure of the account lookup comes back wrapped, and is no ServerInternal.
\<close>

theorem account_lookup_error_counterexample:
  "Existing alice
   \<and> LoadAccount outage_env (storage (backend_of sample_storage)) (Kid alice)
       = Inl (Opaque ''storage unreachable'')
   \<and> fst (acmeRevocationHandler outage_env alice sample_request (backend_of sample_storage))
       = Failed (Errorf ''failed to lookup account: %w'' (Opaque ''storage unreachable''))
   \<and> \<not> errors_Is (Errorf ''failed to lookup account: %w'' (Opaque ''storage unreachable''))
          ErrServerInternal"
  by (simp add: run_defs)

section \<open>The lock\<close>



end
